theory Spec2Isabelle
  imports Main
begin

section \<open>The fault-prediction oracle of h1st\_contrib/pmfp/models/oracle/\_\_init\_\_.py\<close>

text \<open>
  The module composes three models that are implemented elsewhere: a teacher, a student and
  an ensemble. Every method of the module is a sequence of calls to those models, so the
  embedding makes three things explicit:
  \<^item> a call to code outside the module may raise and may change state that the module
    does not see. Such a call is a function of a world \<open>'w\<close> giving either the exception
    or the returned value and the world after the call;
  \<^item> an object of an outside class is a record of the attributes the module reads and of
    the methods it calls;
  \<^item> an exception is the value \<open>Inl e\<close>; the module has no \<open>try\<close>, so the first
    \<open>Inl\<close> of a sequence is the result of the whole sequence.
\<close>

subsection \<open>Exceptions and outside calls\<close>

text \<open>
  \<open>ValueError\<close> is what tuple unpacking, \<open>str.split\<close> and the \<open>Series\<close> constructor
  raise, \<open>AttributeError\<close> what \<open>getattr\<close> raises; \<open>Raised\<close> stands for an exception
  of any other class, raised by outside code.
\<close>

datatype error = ValueError | AttributeError | Raised string

type_synonym ('a, 'w) ext = "'w \<Rightarrow> error + 'a \<times> 'w"

definition and_then :: "error + 'a \<Rightarrow> ('a \<Rightarrow> error + 'b) \<Rightarrow> error + 'b" where
  "and_then r k = (case r of Inl e \<Rightarrow> Inl e | Inr a \<Rightarrow> k a)"

subsection \<open>Strings: \<open>str.split(sep)\<close> and unpacking into two names\<close>

fun startswith :: "string \<Rightarrow> string \<Rightarrow> bool" where
  "startswith [] s = True"
| "startswith (p # ps) [] = False"
| "startswith (p # ps) (c # cs) = (p = c \<and> startswith ps cs)"

text \<open>
  \<open>split_from sep cur s\<close> scans \<open>s\<close> from the left; \<open>cur\<close> holds, reversed, the
  characters of the piece being read. At an occurrence of \<open>sep\<close> the piece ends and the scan
  goes on behind the separator, so occurrences are the leftmost ones and do not overlap.
\<close>

fun split_from :: "string \<Rightarrow> string \<Rightarrow> string \<Rightarrow> string list" where
  "split_from sep cur [] = [rev cur]"
| "split_from sep cur (c # cs) =
     (if startswith sep (c # cs)
      then rev cur # split_from sep [] (drop (length sep - 1) cs)
      else split_from sep (c # cur) cs)"

definition py_split :: "string \<Rightarrow> string \<Rightarrow> error + string list" where
  \<comment> \<open>\<open>s.split(sep)\<close>; Python raises ValueError on an empty separator. A \<open>string\<close> holds
      the bytes of the text; both separators of the module are ASCII, so the pieces are the
      same as on code points.\<close>
  "py_split s sep = (if sep = [] then Inl ValueError else Inr (split_from sep [] s))"

fun unpack2 :: "'a list \<Rightarrow> error + 'a \<times> 'a" where
  \<comment> \<open>\<open>a, b = xs\<close>: too few or too many values raise ValueError.\<close>
  "unpack2 [a, b] = Inr (a, b)"
| "unpack2 xs = Inl ValueError"

subsection \<open>pandas Series\<close>

text \<open>
  A Series is a name and a sequence of rows, each an index label with a value. Iterating a
  Series gives its values in row order; \<open>.index\<close> gives the labels in row order.
\<close>

record ('ix, 'a) Series =
  S_name :: "string option"
  S_rows :: "('ix \<times> 'a) list"

definition S_index :: "('ix, 'a) Series \<Rightarrow> 'ix list" where
  "S_index s = map fst (S_rows s)"

definition S_values :: "('ix, 'a) Series \<Rightarrow> 'a list" where
  "S_values s = map snd (S_rows s)"

definition Series_new :: "'a list \<Rightarrow> 'ix list \<Rightarrow> string \<Rightarrow> error + ('ix, 'a) Series" where
  \<comment> \<open>\<open>Series(data=..., index=..., name=...)\<close> on a sequence of values: the constructor
      checks that there are as many values as labels.\<close>
  "Series_new data index name =
     (if length data \<noteq> length index then Inl ValueError
      else Inr \<lparr>S_name = Some name, S_rows = zip index data\<rparr>)"

subsection \<open>The outside classes\<close>

text \<open>
  Field prefixes: \<open>t_\<close> teacher, \<open>s_\<close> student, \<open>sm_\<close> student modeler, \<open>e_\<close> ensemble.
  \<open>'df\<close> is the DataFrame of one equipment unit for one day, \<open>'fd\<close> the
  S3ParquetDataFeeder, \<open>'ix\<close> the type of index labels. The second argument of the student's
  \<open>predict\<close> and \<open>batch_predict\<close> is the keyword \<open>return_binary\<close>.
\<close>

record ('df, 'fd, 'ix, 'w) BaseFaultPredTeacher =
  t_general_type :: string
  t_unique_type_group :: string
  t_predict :: "'df \<Rightarrow> (bool, 'w) ext"
  t_batch_predict :: "'fd \<Rightarrow> (('ix, bool) Series, 'w) ext"

record ('df, 'fd, 'ix, 'w) TimeSeriesDLFaultPredStudent =
  s_version :: string
  s_predict :: "'df \<Rightarrow> bool \<Rightarrow> (bool, 'w) ext"
  s_batch_predict :: "'fd \<Rightarrow> bool \<Rightarrow> (('ix, bool) Series, 'w) ext"
  s_tune_decision_threshold :: "string \<times> string \<Rightarrow> (unit, 'w) ext"

record ('df, 'fd, 'ix, 'w) TimeSeriesDLFaultPredStudentModeler =
  sm_build_model :: "(('df, 'fd, 'ix, 'w) TimeSeriesDLFaultPredStudent, 'w) ext"

record ('ix, 'w) Ensemble =
  e_class :: string
  e_predict :: "bool \<Rightarrow> bool \<Rightarrow> (bool, 'w) ext"
  e_batch_predict ::
    "('ix, bool) Series \<Rightarrow> ('ix, bool) Series \<Rightarrow> (('ix, bool) Series, 'w) ext"

text \<open>The attributes that the initialiser of BaseFaultPredictor is called with.\<close>

record BaseFaultPredictor =
  general_type :: string
  unique_type_group :: string
  version :: string

text \<open>
  What the module takes from outside by name: the import of \<open>ai.models\<close> (a table from
  attribute names to classes, a class being its \<open>load\<close>; an attribute that has no \<open>load\<close>
  fails with AttributeError one step later and is left out of the table), the initialiser
  of the base class, the class methods and the constructor of the student classes, and
  the two methods of UnanimousFaultPredEnsemble.
\<close>

record ('df, 'fd, 'ix, 'w) env =
  import_ai_models ::
    "(string \<rightharpoonup> (string \<Rightarrow> (('df, 'fd, 'ix, 'w) BaseFaultPredTeacher, 'w) ext), 'w) ext"
  BaseFaultPredictor_init :: "string \<Rightarrow> string \<Rightarrow> string \<Rightarrow> (BaseFaultPredictor, 'w) ext"
  Student_load :: "string \<Rightarrow> (('df, 'fd, 'ix, 'w) TimeSeriesDLFaultPredStudent, 'w) ext"
  Student_list_versions :: "(string list, 'w) ext"
  StudentModeler_new ::
    "('df, 'fd, 'ix, 'w) BaseFaultPredTeacher \<Rightarrow> string list \<Rightarrow> string list \<Rightarrow> int \<Rightarrow>
     string \<times> string \<Rightarrow> (('df, 'fd, 'ix, 'w) TimeSeriesDLFaultPredStudentModeler, 'w) ext"
  Unanimous_predict :: "bool \<Rightarrow> bool \<Rightarrow> (bool, 'w) ext"
  Unanimous_batch_predict ::
    "('ix, bool) Series \<Rightarrow> ('ix, bool) Series \<Rightarrow> (('ix, bool) Series, 'w) ext"

subsection \<open>FaultPredOracleModeler\<close>

record ('df, 'fd, 'ix, 'w) FaultPredOracleModeler =
  m_teacher :: "('df, 'fd, 'ix, 'w) BaseFaultPredTeacher"
  student_input_cat_cols :: "string list"
  student_input_num_cols :: "string list"
  student_input_subsampling_factor :: int
  student_train_date_range :: "string \<times> string"
  student_tuning_date_range :: "string \<times> string"

subsection \<open>FaultPredOracle\<close>

record ('df, 'fd, 'ix, 'w) FaultPredOracle = BaseFaultPredictor +
  teacher :: "('df, 'fd, 'ix, 'w) BaseFaultPredTeacher"
  student :: "('df, 'fd, 'ix, 'w) TimeSeriesDLFaultPredStudent"
  ensemble :: "('ix, 'w) Ensemble"

text \<open>
  \<open>build_model\<close> constructs the student modeler, builds the student, tunes its threshold,
  and ends without a \<open>return\<close>: the value is Python's \<open>None\<close>.
\<close>

definition build_model ::
  "('df, 'fd, 'ix, 'w) env \<Rightarrow> ('df, 'fd, 'ix, 'w) FaultPredOracleModeler \<Rightarrow>
   (('df, 'fd, 'ix, 'w) FaultPredOracle option, 'w) ext" where
  "build_model env self w =
     and_then (StudentModeler_new env (m_teacher self) (student_input_cat_cols self)
                 (student_input_num_cols self) (student_input_subsampling_factor self)
                 (student_train_date_range self) w) (\<lambda>(modeler, w1).
     and_then (sm_build_model modeler w1) (\<lambda>(student, w2).
     and_then (s_tune_decision_threshold student (student_tuning_date_range self) w2)
       (\<lambda>(u, w3). Inr (None, w3))))"

text \<open>
  The default value of the parameter \<open>ensemble\<close>: the instance of
  UnanimousFaultPredEnsemble made when the class is defined.
\<close>

definition default_ensemble :: "('df, 'fd, 'ix, 'w) env \<Rightarrow> ('ix, 'w) Ensemble" where
  "default_ensemble env =
     \<lparr>e_class = ''UnanimousFaultPredEnsemble'',
      e_predict = Unanimous_predict env,
      e_batch_predict = Unanimous_batch_predict env\<rparr>"

definition FaultPredOracle_init ::
  "('df, 'fd, 'ix, 'w) env \<Rightarrow> ('df, 'fd, 'ix, 'w) BaseFaultPredTeacher \<Rightarrow>
   ('df, 'fd, 'ix, 'w) TimeSeriesDLFaultPredStudent \<Rightarrow> ('ix, 'w) Ensemble \<Rightarrow>
   (('df, 'fd, 'ix, 'w) FaultPredOracle, 'w) ext" where
  "FaultPredOracle_init env teacher' student' ensemble' w =
     and_then (BaseFaultPredictor_init env (t_general_type teacher')
                 (t_unique_type_group teacher') (s_version student') w) (\<lambda>(base, w1).
     Inr (\<lparr>general_type = general_type base,
           unique_type_group = unique_type_group base,
           version = version base,
           teacher = teacher', student = student', ensemble = ensemble'\<rparr>, w1))"

definition getattr :: "(string \<rightharpoonup> 'c) \<Rightarrow> string \<Rightarrow> error + 'c" where
  "getattr module name = (case module name of None \<Rightarrow> Inl AttributeError | Some c \<Rightarrow> Inr c)"

definition load ::
  "('df, 'fd, 'ix, 'w) env \<Rightarrow> string \<Rightarrow> (('df, 'fd, 'ix, 'w) FaultPredOracle, 'w) ext" where
  "load env version' w =
     and_then (import_ai_models env w) (\<lambda>(ai_models, w0).
     and_then (py_split version' ''---'') (\<lambda>parts.
     and_then (unpack2 parts) (\<lambda>(teacher_name, student_name).
     and_then (py_split teacher_name ''--'') (\<lambda>parts'.
     and_then (unpack2 parts') (\<lambda>(teacher_class_name, teacher_version).
     and_then (getattr ai_models teacher_class_name) (\<lambda>teacher_class.
     and_then (teacher_class teacher_version w0) (\<lambda>(teacher', w1).
     and_then (Student_load env version' w1) (\<lambda>(student', w2).
     FaultPredOracle_init env teacher' student' (default_ensemble env) w2))))))))"

definition list_versions :: "('df, 'fd, 'ix, 'w) env \<Rightarrow> (string list, 'w) ext" where
  "list_versions env w = Student_list_versions env w"

text \<open>
  The two prediction methods return, beside their value and the world, the receiver as it
  is when the method ends, so that what they do to the oracle can be stated.
\<close>

definition predict ::
  "('df, 'fd, 'ix, 'w) FaultPredOracle \<Rightarrow> 'df \<Rightarrow>
   ((bool \<times> bool \<times> bool) \<times> ('df, 'fd, 'ix, 'w) FaultPredOracle, 'w) ext" where
  "predict self df w =
     and_then (t_predict (teacher self) df w) (\<lambda>(teacher_pred, w1).
     and_then (s_predict (student self) df True w1) (\<lambda>(student_pred, w2).
     and_then (e_predict (ensemble self) teacher_pred student_pred w2) (\<lambda>(ensemble_pred, w3).
     Inr (((teacher_pred, student_pred, ensemble_pred), self), w3))))"

definition batch_predict ::
  "('df, 'fd, 'ix, 'w) FaultPredOracle \<Rightarrow> 'fd \<Rightarrow>
   ((('ix, bool \<times> bool \<times> bool) Series) \<times> ('df, 'fd, 'ix, 'w) FaultPredOracle, 'w) ext" where
  "batch_predict self s3_parquet_df w =
     and_then (t_batch_predict (teacher self) s3_parquet_df w) (\<lambda>(teacher_preds, w1).
     and_then (s_batch_predict (student self) s3_parquet_df True w1) (\<lambda>(student_preds, w2).
     and_then (e_batch_predict (ensemble self) teacher_preds student_preds w2)
       (\<lambda>(ensemble_preds, w3).
     and_then (Series_new (zip (S_values teacher_preds)
                             (zip (S_values student_preds) (S_values ensemble_preds)))
                 (S_index ensemble_preds) ''FAULT'') (\<lambda>series.
     Inr ((series, self), w3)))))"


subsection \<open>Rows aligned by index label\<close>

text \<open>
  The alignment that the specification asks of a batch result, in its words: each row of
  the result holds the teacher's, the student's and the ensemble's prediction for that same
  row, a row being known by its index label. \<open>map_of\<close> reads a Series at a label.
\<close>

definition aligned_by_row_index ::
  "('ix, bool) Series \<Rightarrow> ('ix, bool) Series \<Rightarrow> ('ix, bool) Series \<Rightarrow>
   ('ix, bool \<times> bool \<times> bool) Series \<Rightarrow> bool" where
  "aligned_by_row_index teacher_preds student_preds ensemble_preds result =
     list_all (\<lambda>(i, t, s, e).
         map_of (S_rows teacher_preds) i = Some t \<and>
         map_of (S_rows student_preds) i = Some s \<and>
         map_of (S_rows ensemble_preds) i = Some e)
       (S_rows result)"

subsection \<open>A concrete instance\<close>

text \<open>
  An instance on which the methods can be run: DataFrames and data feeders are numbers,
  index labels are strings, and the world is the log of the outside calls made so far.
  The ensemble votes by conjunction and pairs the rows of its two arguments by label.
\<close>

definition demo_rows :: "(string \<times> bool) list \<Rightarrow> (string, bool) Series" where
  "demo_rows rs = \<lparr>S_name = None, S_rows = rs\<rparr>"

definition demo_teacher :: "(nat, nat, string, string list) BaseFaultPredTeacher" where
  "demo_teacher =
     \<lparr>t_general_type = ''refrig'', t_unique_type_group = ''co2'',
      t_predict = (\<lambda>df w. Inr (True, w @ [''teacher.predict''])),
      t_batch_predict = (\<lambda>fd w.
        Inr (demo_rows [(''a'', False), (''b'', True)], w @ [''teacher.batch_predict'']))\<rparr>"

definition shuffled_teacher :: "(nat, nat, string, string list) BaseFaultPredTeacher" where
  \<comment> \<open>the same predictions as \<open>demo_teacher\<close>, its batch rows in another order\<close>
  "shuffled_teacher =
     \<lparr>t_general_type = ''refrig'', t_unique_type_group = ''co2'',
      t_predict = (\<lambda>df w. Inr (True, w @ [''teacher.predict''])),
      t_batch_predict = (\<lambda>fd w.
        Inr (demo_rows [(''b'', True), (''a'', False)], w @ [''teacher.batch_predict'']))\<rparr>"

definition demo_student :: "(nat, nat, string, string list) TimeSeriesDLFaultPredStudent" where
  "demo_student =
     \<lparr>s_version = ''DemoTeacher--v1---s1'',
      s_predict = (\<lambda>df return_binary w.
        if return_binary then Inr (False, w @ [''student.predict''])
        else Inl (Raised ''not binary'')),
      s_batch_predict = (\<lambda>fd return_binary w.
        if return_binary
        then Inr (demo_rows [(''a'', True), (''b'', True)], w @ [''student.batch_predict''])
        else Inl (Raised ''not binary'')),
      s_tune_decision_threshold = (\<lambda>r w.
        Inr ((), w @ [''student.tune_decision_threshold '' @ fst r @ '' '' @ snd r]))\<rparr>"

definition demo_teacher_class ::
  "string \<Rightarrow> ((nat, nat, string, string list) BaseFaultPredTeacher, string list) ext" where
  "demo_teacher_class v w =
     (if v = ''v1'' then Inr (demo_teacher, w @ [''DemoTeacher.load '' @ v])
      else Inl (Raised ''no such teacher''))"

definition demo_ai_models ::
  "string \<rightharpoonup> (string \<Rightarrow> ((nat, nat, string, string list) BaseFaultPredTeacher, string list) ext)"
  where
  "demo_ai_models = [''DemoTeacher'' \<mapsto> demo_teacher_class]"

definition demo_env :: "(nat, nat, string, string list) env" where
  "demo_env =
     \<lparr>import_ai_models = (\<lambda>w. Inr (demo_ai_models, w @ [''import ai.models''])),
      BaseFaultPredictor_init = (\<lambda>g u v w.
        Inr (\<lparr>general_type = g, unique_type_group = u, version = v\<rparr>, w)),
      Student_load = (\<lambda>v w.
        if v = ''DemoTeacher--v1---s1'' then Inr (demo_student, w @ [''Student.load '' @ v])
        else Inl (Raised ''no such student'')),
      Student_list_versions = (\<lambda>w. Inr ([''DemoTeacher--v1---s1''], w)),
      StudentModeler_new = (\<lambda>t cat num k r w.
        Inr (\<lparr>sm_build_model = (\<lambda>w'. Inr (demo_student, w' @ [''modeler.build_model'']))\<rparr>,
             w @ [''StudentModeler '' @ fst r @ '' '' @ snd r])),
      Unanimous_predict = (\<lambda>t s w. Inr (t \<and> s, w @ [''ensemble.predict''])),
      Unanimous_batch_predict = (\<lambda>tp sp w.
        Inr (demo_rows (map (\<lambda>(i, s). (i, map_of (S_rows tp) i = Some True \<and> s)) (S_rows sp)),
             w @ [''ensemble.batch_predict'']))\<rparr>"

definition demo_oracle :: "(nat, nat, string, string list) FaultPredOracle" where
  "demo_oracle =
     \<lparr>general_type = ''refrig'', unique_type_group = ''co2'', version = ''DemoTeacher--v1---s1'',
      teacher = demo_teacher, student = demo_student, ensemble = default_ensemble demo_env\<rparr>"

definition shuffled_oracle :: "(nat, nat, string, string list) FaultPredOracle" where
  "shuffled_oracle = demo_oracle\<lparr>teacher := shuffled_teacher\<rparr>"

definition demo_modeler :: "(nat, nat, string, string list) FaultPredOracleModeler" where
  "demo_modeler =
     \<lparr>m_teacher = demo_teacher,
      student_input_cat_cols = [''mode''], student_input_num_cols = [''temp''],
      student_input_subsampling_factor = 3,
      student_train_date_range = (''2020-01'', ''2020-06''),
      student_tuning_date_range = (''2020-07'', ''2020-09'')\<rparr>"



section \<open>Properties\<close>

lemmas demo_defs =
  demo_rows_def demo_teacher_def demo_student_def demo_env_def demo_oracle_def
  default_ensemble_def demo_teacher_class_def demo_ai_models_def

lemma and_then_Inr_iff:
  "and_then r k = Inr b \<longleftrightarrow> (\<exists>a. r = Inr a \<and> k a = Inr b)"
  by (cases r) (simp_all add: and_then_def)

lemma and_then_Inl_iff:
  "and_then r k = Inl e \<longleftrightarrow> r = Inl e \<or> (\<exists>a. r = Inr a \<and> k a = Inl e)"
  by (cases r) (simp_all add: and_then_def)

subsection \<open>Splitting\<close>

lemma startswith_iff: "startswith p s \<longleftrightarrow> (\<exists>r. s = p @ r)"
  by (induction p s rule: startswith.induct) auto

lemma split_from_not_Nil: "split_from sep cur s \<noteq> []"
  by (induction sep cur s rule: split_from.induct) auto

lemma split_from_single: "split_from sep cur s = [b] \<Longrightarrow> b = rev cur @ s"
  by (induction sep cur s arbitrary: b rule: split_from.induct)
     (auto simp: split_from_not_Nil split: if_splits)

text \<open>
  When a split on a non-empty separator gives exactly two pieces, the string is the first
  piece, the separator and the second piece.
\<close>

lemma split_from_pair:
  assumes "sep \<noteq> []" and "split_from sep cur s = [a, b]"
  shows "rev cur @ s = a @ sep @ b"
  using assms
proof (induction sep cur s arbitrary: a b rule: split_from.induct)
  case (1 sep cur)
  then show ?case by simp
next
  case (2 sep cur c cs)
  show ?case
  proof (cases "startswith sep (c # cs)")
    case True
    then obtain r where r: "c # cs = sep @ r"
      by (auto simp: startswith_iff)
    from "2.prems"(1) obtain p ps where sep: "sep = p # ps"
      by (cases sep) auto
    from r sep have cs: "cs = ps @ r" by simp
    from True "2.prems" have a: "a = rev cur"
      and rest: "split_from sep [] (drop (length sep - 1) cs) = [b]" by auto
    from rest have "b = drop (length sep - 1) cs"
      using split_from_single by fastforce
    with cs sep have "b = r" by simp
    with a r show ?thesis by simp
  next
    case False
    with "2.prems" have "split_from sep (c # cur) cs = [a, b]" by simp
    with False "2.IH"(2) "2.prems"(1) have "rev (c # cur) @ cs = a @ sep @ b" by blast
    then show ?thesis by simp
  qed
qed

lemma py_split_pair:
  "py_split s sep = Inr [a, b] \<Longrightarrow> s = a @ sep @ b"
  using split_from_pair [of sep "[]" s a b]
  by (auto simp: py_split_def split: if_splits)

lemma py_split_literal:
  "py_split s ''---'' = Inr (split_from ''---'' [] s)"
  "py_split s ''--'' = Inr (split_from ''--'' [] s)"
  by (simp_all add: py_split_def)

lemma unpack2_Inr_iff: "unpack2 xs = Inr (a, b) \<longleftrightarrow> xs = [a, b]"
  by (cases xs rule: unpack2.cases) auto


lemma getattr_Inr_iff: "getattr m n = Inr c \<longleftrightarrow> m n = Some c"
  by (simp add: getattr_def split: option.splits)


lemma FaultPredOracle_init_Inr_iff:
  "FaultPredOracle_init env t s e w = Inr (oracle, w') \<longleftrightarrow>
     (\<exists>base. BaseFaultPredictor_init env (t_general_type t) (t_unique_type_group t)
               (s_version s) w = Inr (base, w') \<and>
             oracle = \<lparr>general_type = general_type base,
                       unique_type_group = unique_type_group base,
                       version = version base,
                       teacher = t, student = s, ensemble = e\<rparr>)"
  unfolding FaultPredOracle_init_def by (auto simp: and_then_Inr_iff)

lemma load_Inr_iff:
  "load env v w = Inr (oracle, w') \<longleftrightarrow>
     (\<exists>ai_models w0 teacher_name student_name teacher_class_name teacher_version
        teacher_class t w1 s w2.
        import_ai_models env w = Inr (ai_models, w0) \<and>
        py_split v ''---'' = Inr [teacher_name, student_name] \<and>
        py_split teacher_name ''--'' = Inr [teacher_class_name, teacher_version] \<and>
        ai_models teacher_class_name = Some teacher_class \<and>
        teacher_class teacher_version w0 = Inr (t, w1) \<and>
        Student_load env v w1 = Inr (s, w2) \<and>
        FaultPredOracle_init env t s (default_ensemble env) w2 = Inr (oracle, w'))"
  unfolding load_def
  by (simp add: and_then_Inr_iff unpack2_Inr_iff getattr_Inr_iff) blast

lemma demo_split3:
  "split_from ''---'' [] ''DemoTeacher--v1---s1'' = [''DemoTeacher--v1'', ''s1'']"
  by simp

lemma demo_split2: "split_from ''--'' [] ''DemoTeacher--v1'' = [''DemoTeacher'', ''v1'']"
  by simp

lemma demo_load:
  "load demo_env ''DemoTeacher--v1---s1'' [] =
     Inr (demo_oracle,
          [''import ai.models'', ''DemoTeacher.load v1'', ''Student.load DemoTeacher--v1---s1''])"
  unfolding load_def py_split_def demo_split3
  by (simp add: and_then_def demo_split2 getattr_def FaultPredOracle_init_def demo_defs)

subsection \<open>predict\<close>

text \<open>
  C1. \<open>predict\<close> returns the triple \<open>(t, s, e)\<close> exactly when the teacher's \<open>predict\<close> on
  the DataFrame returns \<open>t\<close>, the student's \<open>predict\<close> on the DataFrame with
  \<open>return_binary=True\<close>, run in the world the teacher left, returns \<open>s\<close>, and the
  ensemble's \<open>predict\<close> on \<open>t\<close> and \<open>s\<close>, run in the world the student left, returns
  \<open>e\<close>: three booleans, the teacher called first, then the student, then the ensemble on
  the two earlier results.
\<close>

theorem predict_returns_triple:
  "predict self df w = Inr (((t, s, e), self'), w3) \<longleftrightarrow>
     self' = self \<and>
     (\<exists>w1 w2. t_predict (teacher self) df w = Inr (t, w1) \<and>
              s_predict (student self) df True w1 = Inr (s, w2) \<and>
              e_predict (ensemble self) t s w2 = Inr (e, w3))"
  unfolding predict_def by (auto simp: and_then_Inr_iff)

theorem predict_returns_triple_witness:
  "predict demo_oracle 7 [] =
     Inr (((True, False, False), demo_oracle),
          [''teacher.predict'', ''student.predict'', ''ensemble.predict''])"
proof -
  have "t_predict (teacher demo_oracle) 7 [] = Inr (True, [''teacher.predict''])"
    and "s_predict (student demo_oracle) 7 True [''teacher.predict'']
           = Inr (False, [''teacher.predict'', ''student.predict''])"
    and "e_predict (ensemble demo_oracle) True False [''teacher.predict'', ''student.predict'']
           = Inr (False, [''teacher.predict'', ''student.predict'', ''ensemble.predict''])"
    by (simp_all add: demo_defs)
  then show ?thesis
    using predict_returns_triple [of demo_oracle 7 "[]" True False False demo_oracle
        "[''teacher.predict'', ''student.predict'', ''ensemble.predict'']"]
    by blast
qed


lemma demo_predict:
  "predict demo_oracle 7 [] =
     Inr (((True, False, False), demo_oracle),
          [''teacher.predict'', ''student.predict'', ''ensemble.predict''])"
  by (simp add: predict_def and_then_def demo_defs)

lemma demo_batch_predict:
  "batch_predict demo_oracle 7 [] =
     Inr ((\<lparr>S_name = Some ''FAULT'',
            S_rows = [(''a'', False, True, False), (''b'', True, True, True)]\<rparr>, demo_oracle),
          [''teacher.batch_predict'', ''student.batch_predict'', ''ensemble.batch_predict''])"
  by (simp add: batch_predict_def and_then_def Series_new_def S_values_def S_index_def
      demo_defs)

text \<open>
  C10. Neither \<open>predict\<close> nor \<open>batch_predict\<close> changes the oracle: when either returns,
  the teacher, student, ensemble, version, general\_type and unique\_type\_group of the
  receiver are what they were before the call.
\<close>

theorem prediction_leaves_oracle_unchanged:
  "(predict self df w = Inr ((r, self'), w') \<longrightarrow>
      teacher self' = teacher self \<and> student self' = student self \<and>
      ensemble self' = ensemble self \<and> version self' = version self \<and>
      general_type self' = general_type self \<and>
      unique_type_group self' = unique_type_group self \<and> self' = self) \<and>
   (batch_predict self fd v = Inr ((r', self''), v') \<longrightarrow>
      teacher self'' = teacher self \<and> student self'' = student self \<and>
      ensemble self'' = ensemble self \<and> version self'' = version self \<and>
      general_type self'' = general_type self \<and>
      unique_type_group self'' = unique_type_group self \<and> self'' = self)"
  unfolding predict_def batch_predict_def by (auto simp: and_then_Inr_iff)

theorem prediction_leaves_oracle_unchanged_witness:
  "\<exists>r self' w' r' self'' v'.
     predict demo_oracle 7 [] = Inr ((r, self'), w') \<and>
     batch_predict demo_oracle 7 [] = Inr ((r', self''), v') \<and>
     teacher self' = demo_teacher \<and> student self' = demo_student \<and>
     version self' = ''DemoTeacher--v1---s1'' \<and>
     teacher self'' = demo_teacher \<and> student self'' = demo_student \<and>
     version self'' = ''DemoTeacher--v1---s1''"
proof -
  obtain r self' w' where p: "predict demo_oracle 7 [] = Inr ((r, self'), w')"
    using demo_predict by blast
  obtain r' self'' v' where b: "batch_predict demo_oracle 7 [] = Inr ((r', self''), v')"
    using demo_batch_predict by blast
  from p b prediction_leaves_oracle_unchanged
    [of demo_oracle 7 "[]" r self' w' 7 "[]" r' self'' v']
  have "self' = demo_oracle" and "self'' = demo_oracle" by blast+
  moreover have "teacher demo_oracle = demo_teacher" "student demo_oracle = demo_student"
    "version demo_oracle = ''DemoTeacher--v1---s1''"
    by (simp_all add: demo_oracle_def)
  ultimately show ?thesis using p b by metis
qed

subsection \<open>list\_versions\<close>

text \<open>
  C7. \<open>list_versions\<close> returns what the student class's \<open>list_versions\<close> returns, as it
  is: the same list, or the same exception, and the same world.
\<close>

theorem list_versions_delegates:
  "list_versions env w = Student_list_versions env w"
  by (simp add: list_versions_def)

subsection \<open>build\_model\<close>

lemma demo_build_model:
  "build_model demo_env demo_modeler [] =
     Inr (None, [''StudentModeler 2020-01 2020-06'', ''modeler.build_model'',
                 ''student.tune_decision_threshold 2020-07 2020-09''])"
  by (simp add: build_model_def and_then_def demo_modeler_def demo_defs)

text \<open>
  C3. \<open>build_model\<close> returns exactly when these three calls return, each in the world the
  one before left: the student modeler is constructed from the stored teacher, categorical
  columns, numerical columns, subsampling factor and training date range; its
  \<open>build_model\<close> gives the student; the student's \<open>tune_decision_threshold\<close> is called
  with the stored tuning date range.
\<close>

theorem build_model_trains_then_tunes:
  "(\<exists>r. build_model env self w = Inr (r, w3)) \<longleftrightarrow>
     (\<exists>modeler w1 student' w2 u.
        StudentModeler_new env (m_teacher self) (student_input_cat_cols self)
          (student_input_num_cols self) (student_input_subsampling_factor self)
          (student_train_date_range self) w = Inr (modeler, w1) \<and>
        sm_build_model modeler w1 = Inr (student', w2) \<and>
        s_tune_decision_threshold student' (student_tuning_date_range self) w2 = Inr (u, w3))"
  unfolding build_model_def by (auto simp: and_then_Inr_iff)

theorem build_model_trains_then_tunes_witness:
  "\<exists>modeler student'.
     StudentModeler_new demo_env demo_teacher [''mode''] [''temp''] 3 (''2020-01'', ''2020-06'') []
       = Inr (modeler, [''StudentModeler 2020-01 2020-06'']) \<and>
     sm_build_model modeler [''StudentModeler 2020-01 2020-06'']
       = Inr (student', [''StudentModeler 2020-01 2020-06'', ''modeler.build_model'']) \<and>
     s_tune_decision_threshold student' (''2020-07'', ''2020-09'')
         [''StudentModeler 2020-01 2020-06'', ''modeler.build_model'']
       = Inr ((), [''StudentModeler 2020-01 2020-06'', ''modeler.build_model'',
                   ''student.tune_decision_threshold 2020-07 2020-09''])"
proof -
  have "\<exists>r. build_model demo_env demo_modeler [] =
     Inr (r, [''StudentModeler 2020-01 2020-06'', ''modeler.build_model'',
              ''student.tune_decision_threshold 2020-07 2020-09''])"
    using demo_build_model by blast
  from this [unfolded build_model_trains_then_tunes]
  obtain modeler w1 student' w2 where
    m: "StudentModeler_new demo_env (m_teacher demo_modeler)
          (student_input_cat_cols demo_modeler) (student_input_num_cols demo_modeler)
          (student_input_subsampling_factor demo_modeler)
          (student_train_date_range demo_modeler) [] = Inr (modeler, w1)" and
    b: "sm_build_model modeler w1 = Inr (student', w2)" and
    t: "s_tune_decision_threshold student' (student_tuning_date_range demo_modeler) w2
          = Inr ((), [''StudentModeler 2020-01 2020-06'', ''modeler.build_model'',
                      ''student.tune_decision_threshold 2020-07 2020-09''])"
    by auto
  from m have w1: "w1 = [''StudentModeler 2020-01 2020-06'']"
    by (auto simp: demo_modeler_def demo_defs)
  from m b w1 have w2: "w2 = [''StudentModeler 2020-01 2020-06'', ''modeler.build_model'']"
    by (auto simp: demo_modeler_def demo_defs)
  from m b t w1 w2 show ?thesis
    by (auto simp: demo_modeler_def)
qed

text \<open>
  C4. Whenever \<open>build_model\<close> returns, it returns \<open>None\<close>: no oracle is constructed, and
  the student that was trained and tuned is not part of the result.
\<close>

theorem build_model_returns_None:
  "build_model env self w = Inr (r, w') \<Longrightarrow> r = None"
  unfolding build_model_def by (auto simp: and_then_Inr_iff)

theorem build_model_returns_None_witness:
  "\<exists>w'. build_model demo_env demo_modeler [] = Inr (None, w')"
proof -
  obtain r w' where b: "build_model demo_env demo_modeler [] = Inr (r, w')"
    using demo_build_model by blast
  from build_model_returns_None [OF b] b show ?thesis by blast
qed

subsection \<open>load\<close>

text \<open>
  C2. \<open>load\<close> returns an oracle exactly when: \<open>ai.models\<close> is imported; the version
  string splits on \<open>---\<close> into exactly two parts, the teacher name and the student name; the
  teacher name splits on \<open>--\<close> into exactly two parts, the teacher class name and the
  teacher version; the class name is an attribute of \<open>ai.models\<close>; that class's \<open>load\<close>
  returns the teacher for the teacher version; the student class's \<open>load\<close> returns the
  student for the whole version string (the student name is not used); and the oracle is
  the one the initialiser builds from that teacher and that student.
\<close>

theorem load_builds_oracle_from_version:
  "load env v w = Inr (oracle, w') \<longleftrightarrow>
     (\<exists>ai_models w0 teacher_name student_name teacher_class_name teacher_version
        teacher_class t w1 s w2.
        import_ai_models env w = Inr (ai_models, w0) \<and>
        py_split v ''---'' = Inr [teacher_name, student_name] \<and>
        v = teacher_name @ ''---'' @ student_name \<and>
        py_split teacher_name ''--'' = Inr [teacher_class_name, teacher_version] \<and>
        teacher_name = teacher_class_name @ ''--'' @ teacher_version \<and>
        ai_models teacher_class_name = Some teacher_class \<and>
        teacher_class teacher_version w0 = Inr (t, w1) \<and>
        Student_load env v w1 = Inr (s, w2) \<and>
        FaultPredOracle_init env t s (default_ensemble env) w2 = Inr (oracle, w'))"
proof
  assume "load env v w = Inr (oracle, w')"
  then obtain ai_models w0 teacher_name student_name teacher_class_name teacher_version
      teacher_class t w1 s w2 where
    h: "import_ai_models env w = Inr (ai_models, w0)"
       "py_split v ''---'' = Inr [teacher_name, student_name]"
       "py_split teacher_name ''--'' = Inr [teacher_class_name, teacher_version]"
       "ai_models teacher_class_name = Some teacher_class"
       "teacher_class teacher_version w0 = Inr (t, w1)"
       "Student_load env v w1 = Inr (s, w2)"
       "FaultPredOracle_init env t s (default_ensemble env) w2 = Inr (oracle, w')"
    unfolding load_Inr_iff by blast
  from h(2) have "v = teacher_name @ ''---'' @ student_name"
    by (rule py_split_pair)
  moreover from h(3) have "teacher_name = teacher_class_name @ ''--'' @ teacher_version"
    by (rule py_split_pair)
  ultimately show "\<exists>ai_models w0 teacher_name student_name teacher_class_name teacher_version
        teacher_class t w1 s w2.
        import_ai_models env w = Inr (ai_models, w0) \<and>
        py_split v ''---'' = Inr [teacher_name, student_name] \<and>
        v = teacher_name @ ''---'' @ student_name \<and>
        py_split teacher_name ''--'' = Inr [teacher_class_name, teacher_version] \<and>
        teacher_name = teacher_class_name @ ''--'' @ teacher_version \<and>
        ai_models teacher_class_name = Some teacher_class \<and>
        teacher_class teacher_version w0 = Inr (t, w1) \<and>
        Student_load env v w1 = Inr (s, w2) \<and>
        FaultPredOracle_init env t s (default_ensemble env) w2 = Inr (oracle, w')"
    using h by blast
next
  assume "\<exists>ai_models w0 teacher_name student_name teacher_class_name teacher_version
        teacher_class t w1 s w2.
        import_ai_models env w = Inr (ai_models, w0) \<and>
        py_split v ''---'' = Inr [teacher_name, student_name] \<and>
        v = teacher_name @ ''---'' @ student_name \<and>
        py_split teacher_name ''--'' = Inr [teacher_class_name, teacher_version] \<and>
        teacher_name = teacher_class_name @ ''--'' @ teacher_version \<and>
        ai_models teacher_class_name = Some teacher_class \<and>
        teacher_class teacher_version w0 = Inr (t, w1) \<and>
        Student_load env v w1 = Inr (s, w2) \<and>
        FaultPredOracle_init env t s (default_ensemble env) w2 = Inr (oracle, w')"
  then show "load env v w = Inr (oracle, w')"
    unfolding load_Inr_iff by blast
qed

theorem load_builds_oracle_from_version_witness:
  "load demo_env ''DemoTeacher--v1---s1'' [] =
     Inr (demo_oracle,
          [''import ai.models'', ''DemoTeacher.load v1'', ''Student.load DemoTeacher--v1---s1''])"
proof -
  have "import_ai_models demo_env [] = Inr (demo_ai_models, [''import ai.models''])"
    and "py_split ''DemoTeacher--v1---s1'' ''---'' = Inr [''DemoTeacher--v1'', ''s1'']"
    and "''DemoTeacher--v1---s1'' = ''DemoTeacher--v1'' @ ''---'' @ ''s1''"
    and "py_split ''DemoTeacher--v1'' ''--'' = Inr [''DemoTeacher'', ''v1'']"
    and "''DemoTeacher--v1'' = ''DemoTeacher'' @ ''--'' @ ''v1''"
    and "demo_ai_models ''DemoTeacher'' = Some demo_teacher_class"
    and "demo_teacher_class ''v1'' [''import ai.models'']
           = Inr (demo_teacher, [''import ai.models'', ''DemoTeacher.load v1''])"
    and "Student_load demo_env ''DemoTeacher--v1---s1''
             [''import ai.models'', ''DemoTeacher.load v1'']
           = Inr (demo_student, [''import ai.models'', ''DemoTeacher.load v1'',
                                 ''Student.load DemoTeacher--v1---s1''])"
    and "FaultPredOracle_init demo_env demo_teacher demo_student (default_ensemble demo_env)
             [''import ai.models'', ''DemoTeacher.load v1'',
              ''Student.load DemoTeacher--v1---s1'']
           = Inr (demo_oracle, [''import ai.models'', ''DemoTeacher.load v1'',
                                ''Student.load DemoTeacher--v1---s1''])"
    by (simp_all add: py_split_def FaultPredOracle_init_def and_then_def demo_defs)
  then show ?thesis
    unfolding load_builds_oracle_from_version by blast
qed

text \<open>
  C9. An oracle returned by \<open>load\<close> has the default ensemble of the initialiser, an
  instance of UnanimousFaultPredEnsemble with that class's two methods, whatever the
  version string and whatever \<open>ai.models\<close> holds.
\<close>

theorem load_uses_default_ensemble:
  "load env v w = Inr (oracle, w') \<Longrightarrow>
     ensemble oracle = default_ensemble env \<and>
     e_class (ensemble oracle) = ''UnanimousFaultPredEnsemble'' \<and>
     e_predict (ensemble oracle) = Unanimous_predict env \<and>
     e_batch_predict (ensemble oracle) = Unanimous_batch_predict env"
  by (auto simp: load_Inr_iff FaultPredOracle_init_Inr_iff default_ensemble_def)

theorem load_uses_default_ensemble_witness:
  "\<exists>oracle w'. load demo_env ''DemoTeacher--v1---s1'' [] = Inr (oracle, w') \<and>
     ensemble oracle = default_ensemble demo_env \<and>
     e_class (ensemble oracle) = ''UnanimousFaultPredEnsemble''"
  using demo_load load_uses_default_ensemble [OF demo_load] by blast

subsection \<open>The initialiser\<close>




subsection \<open>Exceptions\<close>







subsection \<open>batch\_predict\<close>

lemma Series_new_rows:
  assumes "length data = length index"
  shows "Series_new data index name = Inr \<lparr>S_name = Some name, S_rows = zip index data\<rparr>"
  using assms by (simp add: Series_new_def)

lemma S_index_rows: "S_index \<lparr>S_name = n, S_rows = rs\<rparr> = map fst rs"
  by (simp add: S_index_def)

lemma S_values_rows: "S_values \<lparr>S_name = n, S_rows = rs\<rparr> = map snd rs"
  by (simp add: S_values_def)

lemma map_of_row:
  assumes "distinct (map fst rows)" and "k < length rows"
  shows "map_of rows (fst (rows ! k)) = Some (snd (rows ! k))"
  using assms by (simp add: map_of_eq_Some_iff)

text \<open>
  C5, as the code has it. When the three batch calls return and the teacher's and the
  student's predictions have at least as many rows as the ensemble's, \<open>batch_predict\<close>
  returns a Series named FAULT whose index is the index of the ensemble's predictions and
  whose values are the teacher's, the student's and the ensemble's values zipped by
  position: row \<open>k\<close> holds the \<open>k\<close>-th value of each. The rows are aligned by index label
  when the teacher's and the student's predictions carry the same index as the ensemble's
  and its labels are distinct.
\<close>

theorem batch_predict_zips_by_position:
  assumes t: "t_batch_predict (teacher self) fd w = Inr (tp, w1)"
    and s: "s_batch_predict (student self) fd True w1 = Inr (sp, w2)"
    and e: "e_batch_predict (ensemble self) tp sp w2 = Inr (ep, w3)"
    and lt: "length (S_rows ep) \<le> length (S_rows tp)"
    and ls: "length (S_rows ep) \<le> length (S_rows sp)"
  shows "\<exists>r. batch_predict self fd w = Inr ((r, self), w3) \<and>
           S_name r = Some ''FAULT'' \<and>
           S_index r = S_index ep \<and>
           S_values r = zip (S_values tp) (zip (S_values sp) (S_values ep)) \<and>
           (\<forall>k<length (S_rows ep).
              S_rows r ! k = (fst (S_rows ep ! k),
                snd (S_rows tp ! k), snd (S_rows sp ! k), snd (S_rows ep ! k))) \<and>
           (S_index tp = S_index ep \<and> S_index sp = S_index ep \<and> distinct (S_index ep) \<longrightarrow>
              aligned_by_row_index tp sp ep r)"
proof -
  define data where "data = zip (S_values tp) (zip (S_values sp) (S_values ep))"
  define r where "r = \<lparr>S_name = Some ''FAULT'', S_rows = zip (S_index ep) data\<rparr>"
  have len: "length data = length (S_index ep)"
    using lt ls by (simp add: data_def S_values_def S_index_def)
  have run: "batch_predict self fd w = Inr ((r, self), w3)"
    unfolding batch_predict_def
    by (simp add: and_then_def t s e Series_new_rows [OF len [unfolded data_def]] r_def data_def)
  have idx: "S_index r = S_index ep"
    using len by (simp add: r_def S_index_rows)
  have vals: "S_values r = data"
    using len by (simp add: r_def S_values_rows)
  have row: "S_rows r ! k = (fst (S_rows ep ! k),
      snd (S_rows tp ! k), snd (S_rows sp ! k), snd (S_rows ep ! k))"
    if k: "k < length (S_rows ep)" for k
    using k lt ls len by (simp add: r_def data_def S_values_def S_index_def)
  have al: "aligned_by_row_index tp sp ep r"
    if same: "S_index tp = S_index ep" "S_index sp = S_index ep" and d: "distinct (S_index ep)"
  proof -
    have n: "length (S_rows tp) = length (S_rows ep)" "length (S_rows sp) = length (S_rows ep)"
      using same by (metis S_index_def length_map)+
    have lr: "length (S_rows r) = length (S_rows ep)"
      using len by (simp add: r_def S_index_def)
    have "map_of (S_rows tp) (fst (S_rows ep ! k)) = Some (snd (S_rows tp ! k)) \<and>
          map_of (S_rows sp) (fst (S_rows ep ! k)) = Some (snd (S_rows sp ! k)) \<and>
          map_of (S_rows ep) (fst (S_rows ep ! k)) = Some (snd (S_rows ep ! k))"
      if k: "k < length (S_rows ep)" for k
    proof -
      have ft: "fst (S_rows tp ! k) = fst (S_rows ep ! k)"
        using same(1) k n by (metis S_index_def nth_map)
      have fs: "fst (S_rows sp ! k) = fst (S_rows ep ! k)"
        using same(2) k n by (metis S_index_def nth_map)
      have "distinct (map fst (S_rows tp))" "distinct (map fst (S_rows sp))"
        "distinct (map fst (S_rows ep))"
        using same d by (simp_all add: S_index_def)
      then show ?thesis
        using map_of_row [of "S_rows tp" k] map_of_row [of "S_rows sp" k]
          map_of_row [of "S_rows ep" k] k n ft fs by simp
    qed
    then show ?thesis
      unfolding aligned_by_row_index_def list_all_length
      using row lr by simp
  qed
  from run idx vals row al show ?thesis
    unfolding data_def by (intro exI [of _ r]) (simp add: r_def)
qed

theorem batch_predict_zips_by_position_witness:
  "\<exists>r. batch_predict demo_oracle 7 [] =
          Inr ((r, demo_oracle),
               [''teacher.batch_predict'', ''student.batch_predict'',
                ''ensemble.batch_predict'']) \<and>
       S_name r = Some ''FAULT'' \<and>
       S_index r = [''a'', ''b''] \<and>
       S_values r = [(False, True, False), (True, True, True)] \<and>
       aligned_by_row_index (demo_rows [(''a'', False), (''b'', True)])
         (demo_rows [(''a'', True), (''b'', True)])
         (demo_rows [(''a'', False), (''b'', True)]) r"
proof -
  have t: "t_batch_predict (teacher demo_oracle) 7 [] =
      Inr (demo_rows [(''a'', False), (''b'', True)], [''teacher.batch_predict''])"
    by (simp add: demo_oracle_def demo_teacher_def)
  have s: "s_batch_predict (student demo_oracle) 7 True [''teacher.batch_predict''] =
      Inr (demo_rows [(''a'', True), (''b'', True)],
           [''teacher.batch_predict'', ''student.batch_predict''])"
    by (simp add: demo_oracle_def demo_student_def)
  have e: "e_batch_predict (ensemble demo_oracle) (demo_rows [(''a'', False), (''b'', True)])
      (demo_rows [(''a'', True), (''b'', True)])
      [''teacher.batch_predict'', ''student.batch_predict''] =
      Inr (demo_rows [(''a'', False), (''b'', True)],
           [''teacher.batch_predict'', ''student.batch_predict'', ''ensemble.batch_predict''])"
    by (simp add: demo_oracle_def default_ensemble_def demo_env_def demo_rows_def)
  have lt: "length (S_rows (demo_rows [(''a'', False), (''b'', True)]))
      \<le> length (S_rows (demo_rows [(''a'', False), (''b'', True)]))"
    by simp
  have ls: "length (S_rows (demo_rows [(''a'', False), (''b'', True)]))
      \<le> length (S_rows (demo_rows [(''a'', True), (''b'', True)]))"
    by (simp add: demo_rows_def)
  from batch_predict_zips_by_position [OF t s e lt ls]
  show ?thesis
    by (auto simp: demo_rows_def S_index_rows S_values_rows)
qed

text \<open>
  C5, as it is stated, fails. The teacher below returns its batch predictions in another
  row order than the ensemble. The result is labelled with the ensemble's index, and its
  row \<open>a\<close> holds the teacher's prediction for \<open>b\<close>.
\<close>

theorem batch_predict_alignment_counterexample:
  "t_batch_predict (teacher shuffled_oracle) 7 [] =
     Inr (demo_rows [(''b'', True), (''a'', False)], [''teacher.batch_predict'']) \<and>
   s_batch_predict (student shuffled_oracle) 7 True [''teacher.batch_predict''] =
     Inr (demo_rows [(''a'', True), (''b'', True)],
          [''teacher.batch_predict'', ''student.batch_predict'']) \<and>
   e_batch_predict (ensemble shuffled_oracle) (demo_rows [(''b'', True), (''a'', False)])
       (demo_rows [(''a'', True), (''b'', True)])
       [''teacher.batch_predict'', ''student.batch_predict''] =
     Inr (demo_rows [(''a'', False), (''b'', True)],
          [''teacher.batch_predict'', ''student.batch_predict'', ''ensemble.batch_predict'']) \<and>
   batch_predict shuffled_oracle 7 [] =
     Inr ((\<lparr>S_name = Some ''FAULT'',
            S_rows = [(''a'', True, True, False), (''b'', False, True, True)]\<rparr>,
           shuffled_oracle),
          [''teacher.batch_predict'', ''student.batch_predict'', ''ensemble.batch_predict'']) \<and>
   \<not> aligned_by_row_index (demo_rows [(''b'', True), (''a'', False)])
       (demo_rows [(''a'', True), (''b'', True)])
       (demo_rows [(''a'', False), (''b'', True)])
       \<lparr>S_name = Some ''FAULT'',
        S_rows = [(''a'', True, True, False), (''b'', False, True, True)]\<rparr>"
  by (simp add: batch_predict_def and_then_def Series_new_def S_values_def S_index_def
      aligned_by_row_index_def shuffled_oracle_def shuffled_teacher_def demo_defs)


end
